theory Spec2Isabelle
  imports Main
begin

section \<open>The hybrid tutorial bot (src/demos/tutorialHybrid.ts)\<close>

text \<open>
  The file wires a bot-framework adapter to the ConversationLearner SDK. Its own logic is
  the message handler registered on \<^verbatim>\<open>/api/messages\<close> and the two session
  callbacks. Every effect of that code is made explicit here: the handler and the callbacks
  take the world and return it updated. A \<^verbatim>\<open>throw\<close>, and a rejection of an awaited
  promise, is a value of type \<open>error\<close> returned together with the world as it was when
  the exception left the function (objects are mutated in place, so writes made before the
  failure stay).
\<close>

subsection \<open>Data\<close>

text \<open>
  The BotBuilder state object of one conversation. It starts as an empty object, so each
  property is optional: \<open>None\<close> is JavaScript's \<^verbatim>\<open>undefined\<close>.
  \<open>purchasedItem\<close> is assigned the result of \<^verbatim>\<open>PrevEntityValue\<close>, of type
  \<^verbatim>\<open>string | null\<close>; so \<open>Some None\<close> is \<^verbatim>\<open>null\<close> and
  \<open>Some (Some s)\<close> is the string \<open>s\<close>.
\<close>

record bot_state =
  usingConversationLearner :: "bool option"
  storeIsOpen :: "bool option"
  purchasedItem :: "string option option"

text \<open>
  Modelled from the spec: the SDK's enumeration \<^verbatim>\<open>SessionEndState\<close> is imported,
  not declared in the repository. The spec gives the terminal classification as completed,
  or other/aborted.
\<close>

datatype SessionEndState = COMPLETED | OTHER

text \<open>
  Modelled from the spec: the SDK's \<^verbatim>\<open>ClientMemoryManager\<close> is the engine's working
  memory, a set of named slots. Only the two methods the callbacks call are modelled:
  \<^verbatim>\<open>RememberEntity\<close> writes a slot of the current memory and
  \<^verbatim>\<open>PrevEntityValue\<close> reads a slot of the memory as it was before the session ended
  (\<open>None\<close> is \<^verbatim>\<open>null\<close>).
\<close>

datatype entity_value = BoolValue bool | TextValue string

record memory =
  curMemories :: "string \<rightharpoonup> entity_value"
  prevMemories :: "string \<rightharpoonup> string"

definition RememberEntity :: "string \<Rightarrow> entity_value \<Rightarrow> memory \<Rightarrow> memory" where
  "RememberEntity entityName v m = m\<lparr>curMemories := (curMemories m)(entityName \<mapsto> v)\<rparr>"

definition PrevEntityValue :: "memory \<Rightarrow> string \<Rightarrow> string option" where
  "PrevEntityValue m entityName = prevMemories m entityName"

text \<open>
  A thrown value: both \<^verbatim>\<open>throw\<close> statements of the file throw a raw string, and the
  reason of a rejected promise is kept as a string too.
\<close>

datatype error = Throw string

text \<open>The outcome of an awaited call that returns nothing: it resolves, or it rejects.\<close>

definition outcome :: "error option \<Rightarrow> error + unit" where
  "outcome failure = (case failure of None \<Rightarrow> Inr () | Some e \<Rightarrow> Inl e)"

text \<open>
  The part of \<^verbatim>\<open>context.activity\<close> the code reads (\<open>text'\<close> is
  \<^verbatim>\<open>undefined\<close> on activities that carry none); the conversation the turn context
  is bound to, which is the key of \<^verbatim>\<open>convoState.get(context)\<close>; and how the
  channel adapter behind \<^verbatim>\<open>context.sendActivity\<close> answers a message: \<open>None\<close> when
  the promise resolves, \<open>Some e\<close> when it rejects with \<open>e\<close>.
\<close>

record activity =
  type :: string
  text' :: "string option"

record turn_context =
  conversation :: string
  activity :: activity
  send_failure :: "string \<Rightarrow> error option"

text \<open>
  What the code under study does to the outside, in order: a call of
  \<^verbatim>\<open>context.sendActivity\<close> with a message, and a call of the session-start callback
  by the engine together with the state object \<^verbatim>\<open>convoState.get(context)\<close> returns
  at that moment.
\<close>

datatype event =
  SendActivity string
| SessionStartHook "bot_state option"

fun is_SessionStartHook :: "event \<Rightarrow> bool" where
  "is_SessionStartHook (SessionStartHook _) = True"
| "is_SessionStartHook (SendActivity _) = False"

definition hook_invocations :: "event list \<Rightarrow> nat" where
  "hook_invocations es = length (filter is_SessionStartHook es)"

text \<open>
  The world: the conversation state objects cached by \<^verbatim>\<open>convoState\<close> (a conversation
  without an entry makes \<^verbatim>\<open>get\<close> return \<^verbatim>\<open>undefined\<close>); the module-level
  variable \<^verbatim>\<open>state\<close> of line 70, which holds a reference to one of these objects
  (the conversation whose object it is) or \<^verbatim>\<open>null\<close>/\<^verbatim>\<open>undefined\<close>; the
  engine's memory manager; and the events so far.
\<close>

record world =
  convoState :: "string \<rightharpoonup> bot_state"
  state :: "string option"
  memoryManager :: memory
  trace :: "event list"

text \<open>
  The methods of the \<^verbatim>\<open>ConversationLearner\<close> instance whose behaviour the file
  does not determine are parameters. \<^verbatim>\<open>recognize\<close> is awaited, so it may throw into
  the handler, and it may change anything in the world (it is the engine that ends a session
  and runs the session-end callback). \<^verbatim>\<open>SendResult\<close> is called without
  \<^verbatim>\<open>await\<close>: a failure inside it cannot reach the handler.
  \<open>StartSession_failure\<close> says whether the engine fails to establish the session that
  \<^verbatim>\<open>StartSession\<close> asks for, and with which error.
\<close>

record 'r engine =
  inTrainingUI :: "turn_context \<Rightarrow> bool"
  recognize :: "turn_context \<Rightarrow> world \<Rightarrow> (error + 'r option) \<times> world"
  SendResult :: "'r \<Rightarrow> world \<Rightarrow> world"
  StartSession_failure :: "turn_context \<Rightarrow> error option"

subsection \<open>JavaScript helpers\<close>

text \<open>Truthiness of an optional boolean and of an optional, nullable string.\<close>

definition truthy :: "bool option \<Rightarrow> bool" where
  "truthy b = (b = Some True)"

definition truthy_string :: "string option option \<Rightarrow> bool" where
  "truthy_string s = (case s of Some (Some t) \<Rightarrow> t \<noteq> [] | _ \<Rightarrow> False)"

definition convoState_get :: "world \<Rightarrow> turn_context \<Rightarrow> bot_state option" where
  "convoState_get w context = convoState w (conversation context)"

text \<open>
  \<^verbatim>\<open>await p; rest\<close>: when the awaited call rejects, the rejection leaves the enclosing
  function and \<open>rest\<close> does not run.
\<close>

definition await_then ::
  "(error + unit) \<times> world \<Rightarrow> (world \<Rightarrow> (error + unit) \<times> world) \<Rightarrow> (error + unit) \<times> world" where
  "await_then p rest = (case p of (Inl e, w) \<Rightarrow> (Inl e, w) | (Inr _, w) \<Rightarrow> rest w)"

text \<open>
  \<^verbatim>\<open>context.sendActivity(text)\<close>. The call is recorded; the channel adapter then
  resolves or rejects the promise the call returns.
\<close>

definition sendActivity :: "turn_context \<Rightarrow> string \<Rightarrow> world \<Rightarrow> (error + unit) \<times> world" where
  "sendActivity context msg w =
     (outcome (send_failure context msg), w\<lparr>trace := trace w @ [SendActivity msg]\<rparr>)"

text \<open>
  An assignment to a property of the state object of conversation \<open>c\<close>. The code assigns
  only through a reference it has just tested, so the object is there.
\<close>

definition assign :: "string \<Rightarrow> (bot_state \<Rightarrow> bot_state) \<Rightarrow> world \<Rightarrow> world" where
  "assign c f w =
     (case convoState w c of
        None \<Rightarrow> w
      | Some st \<Rightarrow> w\<lparr>convoState := (convoState w)(c \<mapsto> f st)\<rparr>)"

subsection \<open>The session callbacks\<close>

text \<open>Lines 62 to 68.\<close>

definition OnSessionStartCallback :: "turn_context \<Rightarrow> world \<Rightarrow> world" where
  "OnSessionStartCallback context w =
     (case convoState_get w context of
        None \<Rightarrow> w
      | Some st \<Rightarrow>
          if truthy (storeIsOpen st) then
            w\<lparr>memoryManager :=
                RememberEntity ''isOpen'' (BoolValue (the (storeIsOpen st))) (memoryManager w)\<rparr>
          else w)"

text \<open>
  Lines 82 to 104. The parameter \<open>data\<close> is the value set in the end-session action. The
  send on line 92 is awaited: when it rejects, the assignment on line 99 does not happen.
\<close>

definition OnSessionEndCallback ::
  "turn_context \<Rightarrow> SessionEndState \<Rightarrow> string option \<Rightarrow> world \<Rightarrow> (error + unit) \<times> world" where
  "OnSessionEndCallback context sessionEndState data w =
     (case convoState_get w context of
        None \<Rightarrow> (Inl (Throw ''Bot State not Initialized!''), w)
      | Some _ \<Rightarrow>
          (let c = conversation context;
               w1 = assign c (\<lambda>st. st\<lparr>usingConversationLearner := Some False\<rparr>) w
           in if sessionEndState = COMPLETED then
                await_then (sendActivity context ''Thanks for shopping.'' w1)
                  (\<lambda>w2.
                     (let item = PrevEntityValue (memoryManager w2) ''purchaseItem''
                      in (Inr (), assign c (\<lambda>st. st\<lparr>purchasedItem := Some item\<rparr>) w2)))
              else (Inr (), w1)))"

text \<open>
  Modelled from the spec: the engine calling the callback registered with
  \<^verbatim>\<open>cl.OnSessionStartCallback\<close>. Each call is recorded, with the state object the
  callback gets from \<^verbatim>\<open>convoState.get(context)\<close>, and then the callback runs.
\<close>

definition call_OnSessionStartCallback :: "turn_context \<Rightarrow> world \<Rightarrow> world" where
  "call_OnSessionStartCallback context w =
     OnSessionStartCallback context
       (w\<lparr>trace := trace w @ [SessionStartHook (convoState_get w context)]\<rparr>)"

text \<open>
  Modelled from the spec: \<^verbatim>\<open>cl.StartSession\<close> is SDK code. The spec (4.1 step 4 and
  4.2) and the comment on line 179 say that it calls the session-start callback, once and
  synchronously, before the session begins; by 4.2 and 7 a failure to start the session is
  not swallowed, so it reaches the handler, which awaits the call on line 180.
\<close>

definition StartSession :: "'r engine \<Rightarrow> turn_context \<Rightarrow> world \<Rightarrow> (error + unit) \<times> world" where
  "StartSession cl context w =
     (outcome (StartSession_failure cl context), call_OnSessionStartCallback context w)"

subsection \<open>The message handler\<close>

text \<open>Lines 143 to 146 and again 151 to 154.\<close>

definition recognize_and_send :: "'r engine \<Rightarrow> turn_context \<Rightarrow> world \<Rightarrow> (error + unit) \<times> world" where
  "recognize_and_send cl context w =
     (case recognize cl context w of
        (Inl e, w1) \<Rightarrow> (Inl e, w1)
      | (Inr None, w1) \<Rightarrow> (Inr (), w1)
      | (Inr (Some result), w1) \<Rightarrow> (Inr (), SendResult cl result w1))"

definition help_message :: string where
  "help_message = ''You can: \"open store\", \"close store\", \"shop\", \"history\"''"

text \<open>
  Lines 161 to 194: the local commands. The variable \<^verbatim>\<open>state\<close> refers to the state
  object of conversation \<open>c\<close>, whose content on entry is \<open>st\<close>. Every send is
  awaited and is the last statement of its branch; in the branch of \<open>shop\<close> the awaited
  \<^verbatim>\<open>StartSession\<close> comes before it.
\<close>

definition local_dispatch ::
  "'r engine \<Rightarrow> turn_context \<Rightarrow> string \<Rightarrow> bot_state \<Rightarrow> world \<Rightarrow> (error + unit) \<times> world" where
  "local_dispatch cl context c st w =
     (if type (activity context) = ''message'' then
        (if text' (activity context) = Some ''open store'' then
           sendActivity context ''Store is OPEN!''
             (assign c (\<lambda>s. s\<lparr>storeIsOpen := Some True\<rparr>) w)
         else if text' (activity context) = Some ''close store'' then
           sendActivity context ''Store is CLOSED!''
             (assign c (\<lambda>s. s\<lparr>storeIsOpen := Some False\<rparr>) w)
         else if text' (activity context) = Some ''shop'' then
           await_then
             (StartSession cl context
               (assign c (\<lambda>s. s\<lparr>usingConversationLearner := Some True\<rparr>) w))
             (sendActivity context ''Let's shop!'')
         else if text' (activity context) = Some ''history'' then
           sendActivity context
             (''You bought '' @
                (if truthy_string (purchasedItem st)
                 then the (the (purchasedItem st)) else ''nothing'')) w
         else sendActivity context help_message w)
      else (Inr (), w))"

text \<open>Lines 130 to 196, the function given to \<^verbatim>\<open>adapter.processActivity\<close>.\<close>

definition handleTurn :: "'r engine \<Rightarrow> turn_context \<Rightarrow> world \<Rightarrow> (error + unit) \<times> world" where
  "handleTurn cl context w0 =
     (case convoState_get w0 context of
        None \<Rightarrow> (Inl (Throw ''Error Getting State''), w0\<lparr>state := None\<rparr>)
      | Some st \<Rightarrow>
          (let w = w0\<lparr>state := Some (conversation context)\<rparr>
           in if inTrainingUI cl context then recognize_and_send cl context w
              else if truthy (usingConversationLearner st) then recognize_and_send cl context w
              else local_dispatch cl context (conversation context) st w))"

subsection \<open>Concrete turns and worlds\<close>

text \<open>
  A message turn of conversation \<open>conv1\<close> whose sends all resolve, and the same turn on
  a channel that rejects every send; a world in which that conversation has the state object
  \<open>st\<close> and the engine's previous memory has \<open>item\<close> in the slot \<open>purchaseItem\<close>;
  a world in which the conversation has no state object; an engine that recognises every turn
  and answers with the text it was given; and the same engine when it cannot start a session.
\<close>

definition message :: "string \<Rightarrow> turn_context" where
  "message t =
     \<lparr>conversation = ''conv1'', activity = \<lparr>type = ''message'', text' = Some t\<rparr>,
      send_failure = (\<lambda>msg. None)\<rparr>"

definition undelivered :: "string \<Rightarrow> turn_context" where
  "undelivered t = (message t)\<lparr>send_failure := (\<lambda>msg. Some (Throw ''channel unavailable''))\<rparr>"

definition fresh_state :: bot_state where
  "fresh_state = \<lparr>usingConversationLearner = None, storeIsOpen = None, purchasedItem = None\<rparr>"

definition world_with :: "bot_state \<Rightarrow> string option \<Rightarrow> world" where
  "world_with st item =
     \<lparr>convoState = [''conv1'' \<mapsto> st], state = None,
      memoryManager =
        \<lparr>curMemories = Map.empty,
         prevMemories = (\<lambda>n. if n = ''purchaseItem'' then item else None)\<rparr>,
      trace = []\<rparr>"

definition world_without_state :: world where
  "world_without_state =
     \<lparr>convoState = Map.empty, state = None,
      memoryManager = \<lparr>curMemories = Map.empty, prevMemories = [''purchaseItem'' \<mapsto> ''hat'']\<rparr>,
      trace = []\<rparr>"

definition echo_engine :: "bool \<Rightarrow> string engine" where
  "echo_engine training =
     \<lparr>inTrainingUI = (\<lambda>context. training),
      recognize = (\<lambda>context w. (Inr (text' (activity context)), w)),
      SendResult = (\<lambda>result w. w\<lparr>trace := trace w @ [SendActivity result]\<rparr>),
      StartSession_failure = (\<lambda>context. None)\<rparr>"

definition sessionless_engine :: "string engine" where
  "sessionless_engine =
     (echo_engine False)\<lparr>StartSession_failure := (\<lambda>context. Some (Throw ''session not started''))\<rparr>"

section \<open>Properties\<close>

lemmas fixture_defs =
  message_def undelivered_def fresh_state_def world_with_def world_without_state_def
  echo_engine_def sessionless_engine_def

lemmas model_defs =
  convoState_get_def assign_def sendActivity_def truthy_def truthy_string_def outcome_def
  await_then_def RememberEntity_def PrevEntityValue_def OnSessionStartCallback_def
  OnSessionEndCallback_def call_OnSessionStartCallback_def StartSession_def
  recognize_and_send_def local_dispatch_def handleTurn_def Let_def

subsection \<open>Shared facts\<close>

lemma assign_present:
  assumes "convoState w c = Some st"
  shows "assign c f w = w\<lparr>convoState := (convoState w)(c \<mapsto> f st)\<rparr>"
  using assms by (simp add: assign_def)

lemma sendActivity_frame:
  "fst (sendActivity context msg w) = outcome (send_failure context msg)"
  "convoState (snd (sendActivity context msg w)) = convoState w"
  "state (snd (sendActivity context msg w)) = state w"
  "memoryManager (snd (sendActivity context msg w)) = memoryManager w"
  "trace (snd (sendActivity context msg w)) = trace w @ [SendActivity msg]"
  by (simp_all add: sendActivity_def)

text \<open>Every call of the session-start callback by the engine leaves one event of its own.\<close>

lemma call_OnSessionStartCallback_trace:
  "trace (call_OnSessionStartCallback context w) =
     trace w @ [SessionStartHook (convoState_get w context)]"
  by (simp add: call_OnSessionStartCallback_def OnSessionStartCallback_def
      split: option.splits)

lemma hook_invocations_simps:
  "hook_invocations [] = 0"
  "hook_invocations (SessionStartHook seen # es) = Suc (hook_invocations es)"
  "hook_invocations (SendActivity msg # es) = hook_invocations es"
  "hook_invocations (es @ es') = hook_invocations es + hook_invocations es'"
  by (simp_all add: hook_invocations_def)

lemma hook_invocations_call:
  "hook_invocations (trace (call_OnSessionStartCallback context w)) =
     Suc (hook_invocations (trace w))"
  by (simp add: call_OnSessionStartCallback_trace hook_invocations_simps)

lemma hook_invocations_call_twice:
  "hook_invocations
     (trace (call_OnSessionStartCallback context (call_OnSessionStartCallback context w))) =
   Suc (Suc (hook_invocations (trace w)))"
  by (simp add: hook_invocations_call)

text \<open>
  A turn outside the training UI, on a state object whose \<open>usingConversationLearner\<close>
  is not true, runs the local commands.
\<close>

lemma handleTurn_local:
  assumes "convoState_get w context = Some st"
      and "\<not> truthy (usingConversationLearner st)"
      and "\<not> inTrainingUI cl context"
  shows "handleTurn cl context w =
           local_dispatch cl context (conversation context) st
             (w\<lparr>state := Some (conversation context)\<rparr>)"
  using assms by (simp add: handleTurn_def)

text \<open>
  The session-end callback on an existing state object: a completed session whose closing
  send resolves, a completed session whose closing send rejects, and any other session.
\<close>

lemma OnSessionEndCallback_completed:
  assumes "convoState_get w context = Some st"
      and "send_failure context ''Thanks for shopping.'' = None"
  shows "OnSessionEndCallback context COMPLETED data w =
           (Inr (),
            w\<lparr>convoState := (convoState w)(conversation context \<mapsto>
                   st\<lparr>usingConversationLearner := Some False,
                      purchasedItem := Some (PrevEntityValue (memoryManager w) ''purchaseItem'')\<rparr>),
              trace := trace w @ [SendActivity ''Thanks for shopping.'']\<rparr>)"
  using assms
  by (simp add: OnSessionEndCallback_def convoState_get_def assign_def sendActivity_def
      await_then_def outcome_def)

lemma OnSessionEndCallback_rejected:
  assumes "convoState_get w context = Some st"
      and "send_failure context ''Thanks for shopping.'' = Some e"
  shows "OnSessionEndCallback context COMPLETED data w =
           (Inl e,
            w\<lparr>convoState := (convoState w)(conversation context \<mapsto>
                   st\<lparr>usingConversationLearner := Some False\<rparr>),
              trace := trace w @ [SendActivity ''Thanks for shopping.'']\<rparr>)"
  using assms
  by (simp add: OnSessionEndCallback_def convoState_get_def assign_def sendActivity_def
      await_then_def outcome_def)

lemma OnSessionEndCallback_other:
  assumes "convoState_get w context = Some st" and "sessionEndState \<noteq> COMPLETED"
  shows "OnSessionEndCallback context sessionEndState data w =
           (Inr (),
            w\<lparr>convoState := (convoState w)(conversation context \<mapsto>
                   st\<lparr>usingConversationLearner := Some False\<rparr>)\<rparr>)"
  using assms
  by (simp add: OnSessionEndCallback_def convoState_get_def assign_def)

subsection \<open>The session-end callback resets the ownership flag\<close>

text \<open>
  C1. Whenever the session-end callback runs on a conversation whose state object exists,
  \<open>usingConversationLearner\<close> of that object is \<open>false\<close> afterwards, whatever the
  terminal classification and the payload are, and whether or not the closing send of a
  completed session rejects. The callback returns normally, except that on a completed
  session it fails with the rejection of that send.
\<close>

theorem session_end_resets_usingConversationLearner:
  assumes "convoState_get w context = Some st"
  shows "(\<exists>st'. convoState_get (snd (OnSessionEndCallback context sessionEndState data w)) context
                  = Some st'
                \<and> usingConversationLearner st' = Some False) \<and>
         fst (OnSessionEndCallback context sessionEndState data w) =
           (if sessionEndState = COMPLETED
            then outcome (send_failure context ''Thanks for shopping.'') else Inr ())"
proof (cases "sessionEndState = COMPLETED")
  case completed: True
  show ?thesis
  proof (cases "send_failure context ''Thanks for shopping.''")
    case None
    with OnSessionEndCallback_completed [OF assms None, of data] completed show ?thesis
      by (simp add: convoState_get_def outcome_def)
  next
    case (Some e)
    with OnSessionEndCallback_rejected [OF assms Some, of data] completed show ?thesis
      by (simp add: convoState_get_def outcome_def)
  qed
next
  case False
  with OnSessionEndCallback_other [OF assms, of sessionEndState data] show ?thesis
    by (simp add: convoState_get_def)
qed

theorem session_end_resets_usingConversationLearner_witness:
  "convoState_get (world_with (fresh_state\<lparr>usingConversationLearner := Some True\<rparr>) None)
     (undelivered ''bye'')
     = Some (fresh_state\<lparr>usingConversationLearner := Some True\<rparr>) \<and>
   (\<exists>st'. convoState_get
            (snd (OnSessionEndCallback (undelivered ''bye'') OTHER None
                   (world_with (fresh_state\<lparr>usingConversationLearner := Some True\<rparr>) None)))
            (undelivered ''bye'') = Some st'
          \<and> usingConversationLearner st' = Some False) \<and>
   (\<exists>st'. convoState_get
            (snd (OnSessionEndCallback (undelivered ''bye'') COMPLETED None
                   (world_with (fresh_state\<lparr>usingConversationLearner := Some True\<rparr>) None)))
            (undelivered ''bye'') = Some st'
          \<and> usingConversationLearner st' = Some False) \<and>
   fst (OnSessionEndCallback (undelivered ''bye'') COMPLETED None
          (world_with (fresh_state\<lparr>usingConversationLearner := Some True\<rparr>) None))
     = Inl (Throw ''channel unavailable'')"
proof -
  let ?w = "world_with (fresh_state\<lparr>usingConversationLearner := Some True\<rparr>) None"
  have h: "convoState_get ?w (undelivered ''bye'')
           = Some (fresh_state\<lparr>usingConversationLearner := Some True\<rparr>)"
    by (simp add: convoState_get_def world_with_def undelivered_def message_def)
  have s: "outcome (send_failure (undelivered ''bye'') ''Thanks for shopping.'')
           = Inl (Throw ''channel unavailable'')"
    by (simp add: outcome_def undelivered_def)
  from session_end_resets_usingConversationLearner [OF h, of OTHER None]
       session_end_resets_usingConversationLearner [OF h, of COMPLETED None] h s
  show ?thesis by simp
qed

subsection \<open>Turns from the training UI\<close>

text \<open>
  C2. The handler runs behind the state middleware, so a turn it receives has a state
  object (the turn without one is the subject of C8). For every such turn that comes from
  the training UI, the handler does exactly the engine's recognize step followed by
  \<open>SendResult\<close> when a result came back, whatever \<open>usingConversationLearner\<close> and the
  text of the turn are; nothing of the local commands runs.
\<close>

theorem training_ui_routes_to_engine:
  assumes "inTrainingUI cl context" and "convoState_get w context = Some st"
  shows "handleTurn cl context w =
           recognize_and_send cl context (w\<lparr>state := Some (conversation context)\<rparr>)"
  using assms by (simp add: handleTurn_def)

theorem training_ui_routes_to_engine_witness:
  "inTrainingUI (echo_engine True) (message ''open store'') \<and>
   convoState_get (world_with fresh_state None) (message ''open store'') = Some fresh_state \<and>
   handleTurn (echo_engine True) (message ''open store'') (world_with fresh_state None) =
     (Inr (), (world_with fresh_state None)
                \<lparr>state := Some ''conv1'', trace := [SendActivity ''open store'']\<rparr>)"
proof -
  have a: "inTrainingUI (echo_engine True) (message ''open store'')"
    by (simp add: echo_engine_def)
  have b: "convoState_get (world_with fresh_state None) (message ''open store'') = Some fresh_state"
    by (simp add: convoState_get_def world_with_def message_def)
  have c: "recognize_and_send (echo_engine True) (message ''open store'')
             ((world_with fresh_state None)\<lparr>state := Some (conversation (message ''open store''))\<rparr>)
           = (Inr (), (world_with fresh_state None)
                        \<lparr>state := Some ''conv1'', trace := [SendActivity ''open store'']\<rparr>)"
    by (simp add: fixture_defs recognize_and_send_def)
  from training_ui_routes_to_engine [OF a b] a b c show ?thesis by simp
qed

subsection \<open>The command \<open>shop\<close>\<close>

text \<open>
  C3, as stated, fails when the engine cannot start the session: line 180 awaits
  \<^verbatim>\<open>cl.StartSession\<close>, so its failure leaves the handler before line 181. The
  callback has been called once and \<open>usingConversationLearner\<close> is \<open>true\<close>, but no
  confirmation is sent.
\<close>

theorem shop_session_not_started_counterexample:
  "type (activity (message ''shop'')) = ''message'' \<and>
   text' (activity (message ''shop'')) = Some ''shop'' \<and>
   convoState_get (world_with fresh_state None) (message ''shop'') = Some fresh_state \<and>
   \<not> truthy (usingConversationLearner fresh_state) \<and>
   \<not> inTrainingUI sessionless_engine (message ''shop'') \<and>
   fst (handleTurn sessionless_engine (message ''shop'') (world_with fresh_state None))
     = Inl (Throw ''session not started'') \<and>
   trace (snd (handleTurn sessionless_engine (message ''shop'') (world_with fresh_state None)))
     = [SessionStartHook (Some (fresh_state\<lparr>usingConversationLearner := Some True\<rparr>))] \<and>
   convoState_get
     (snd (handleTurn sessionless_engine (message ''shop'') (world_with fresh_state None)))
     (message ''shop'')
     = Some (fresh_state\<lparr>usingConversationLearner := Some True\<rparr>)"
  by (simp add: fixture_defs model_defs)

text \<open>
  C3, amended. A message turn with text \<open>shop\<close>, on a conversation whose
  \<open>usingConversationLearner\<close> is not true and which does not come from the training UI,
  sets \<open>usingConversationLearner\<close> to \<open>true\<close> and then starts a session. The
  session-start callback is called exactly once, when \<open>usingConversationLearner\<close> is
  already \<open>true\<close> and \<open>storeIsOpen\<close> (like every other property) still has the value
  it had before the turn. When the session start completes, the engine's memory is as the
  callback leaves it for that value, the confirmation is sent after the callback and the
  handler ends as that send does; when the session start fails, the handler fails with the
  same error and sends nothing.
\<close>

theorem shop_starts_session:
  assumes "type (activity context) = ''message''"
      and "text' (activity context) = Some ''shop''"
      and "convoState_get w context = Some st"
      and "\<not> truthy (usingConversationLearner st)"
      and "\<not> inTrainingUI cl context"
  shows "convoState_get (snd (handleTurn cl context w)) context =
           Some (st\<lparr>usingConversationLearner := Some True\<rparr>) \<and>
         hook_invocations (trace (snd (handleTurn cl context w))) =
           Suc (hook_invocations (trace w)) \<and>
         (StartSession_failure cl context = None \<longrightarrow>
            memoryManager (snd (handleTurn cl context w)) =
              (if storeIsOpen st = Some True
               then RememberEntity ''isOpen'' (BoolValue True) (memoryManager w)
               else memoryManager w) \<and>
            trace (snd (handleTurn cl context w)) =
              trace w @ [SessionStartHook (Some (st\<lparr>usingConversationLearner := Some True\<rparr>)),
                         SendActivity ''Let's shop!''] \<and>
            fst (handleTurn cl context w) = outcome (send_failure context ''Let's shop!'')) \<and>
         (\<forall>e. StartSession_failure cl context = Some e \<longrightarrow>
            trace (snd (handleTurn cl context w)) =
              trace w @ [SessionStartHook (Some (st\<lparr>usingConversationLearner := Some True\<rparr>))] \<and>
            fst (handleTurn cl context w) = Inl e)"
proof -
  let ?c = "conversation context"
  let ?w1 = "w\<lparr>state := Some ?c\<rparr>"
  let ?st1 = "st\<lparr>usingConversationLearner := Some True\<rparr>"
  from assms(3) have present: "convoState ?w1 ?c = Some st"
    by (simp add: convoState_get_def)
  define w2 where "w2 = assign ?c (\<lambda>s. s\<lparr>usingConversationLearner := Some True\<rparr>) ?w1"
  have w2: "w2 = ?w1\<lparr>convoState := (convoState ?w1)(?c \<mapsto> ?st1)\<rparr>"
    unfolding w2_def by (rule assign_present [OF present])
  define w3 where "w3 = call_OnSessionStartCallback context w2"
  have turn: "handleTurn cl context w =
                await_then (StartSession cl context w2) (sendActivity context ''Let's shop!'')"
    using assms by (simp add: handleTurn_local local_dispatch_def w2_def)
  have started: "StartSession cl context w2 = (outcome (StartSession_failure cl context), w3)"
    by (simp add: StartSession_def w3_def)
  have seen: "trace w3 = trace w @ [SessionStartHook (Some ?st1)]"
    by (simp add: w3_def call_OnSessionStartCallback_trace w2 convoState_get_def)
  have store: "convoState_get w3 context = Some ?st1"
    by (simp add: w3_def call_OnSessionStartCallback_def OnSessionStartCallback_def
        convoState_get_def w2)
  have mem: "memoryManager w3 =
               (if storeIsOpen st = Some True
                then RememberEntity ''isOpen'' (BoolValue True) (memoryManager w)
                else memoryManager w)"
    by (simp add: w3_def call_OnSessionStartCallback_def OnSessionStartCallback_def
        convoState_get_def truthy_def w2)
  have once: "hook_invocations (trace w3) = Suc (hook_invocations (trace w))"
    by (simp add: seen hook_invocations_simps)
  show ?thesis
  proof (cases "StartSession_failure cl context")
    case None
    with turn started
    have "handleTurn cl context w = sendActivity context ''Let's shop!'' w3"
      by (simp add: await_then_def outcome_def)
    with None seen store mem show ?thesis
      by (simp add: sendActivity_def convoState_get_def hook_invocations_simps)
  next
    case (Some e)
    with turn started have "handleTurn cl context w = (Inl e, w3)"
      by (simp add: await_then_def outcome_def)
    with Some seen store mem once show ?thesis
      by simp
  qed
qed

theorem shop_starts_session_witness:
  "type (activity (message ''shop'')) = ''message'' \<and>
   text' (activity (message ''shop'')) = Some ''shop'' \<and>
   convoState_get (world_with (fresh_state\<lparr>storeIsOpen := Some True\<rparr>) None) (message ''shop'')
     = Some (fresh_state\<lparr>storeIsOpen := Some True\<rparr>) \<and>
   \<not> truthy (usingConversationLearner (fresh_state\<lparr>storeIsOpen := Some True\<rparr>)) \<and>
   \<not> inTrainingUI (echo_engine False) (message ''shop'') \<and>
   StartSession_failure (echo_engine False) (message ''shop'') = None \<and>
   trace (snd (handleTurn (echo_engine False) (message ''shop'')
                 (world_with (fresh_state\<lparr>storeIsOpen := Some True\<rparr>) None))) =
     [SessionStartHook
        (Some \<lparr>usingConversationLearner = Some True, storeIsOpen = Some True,
               purchasedItem = None\<rparr>),
      SendActivity ''Let's shop!''] \<and>
   fst (handleTurn (echo_engine False) (message ''shop'')
          (world_with (fresh_state\<lparr>storeIsOpen := Some True\<rparr>) None)) = Inr () \<and>
   hook_invocations (trace (snd (handleTurn (echo_engine False) (message ''shop'')
                 (world_with (fresh_state\<lparr>storeIsOpen := Some True\<rparr>) None)))) = 1 \<and>
   curMemories (memoryManager (snd (handleTurn (echo_engine False) (message ''shop'')
                 (world_with (fresh_state\<lparr>storeIsOpen := Some True\<rparr>) None)))) ''isOpen''
     = Some (BoolValue True)"
proof -
  let ?st = "fresh_state\<lparr>storeIsOpen := Some True\<rparr>"
  have a: "type (activity (message ''shop'')) = ''message''"
    and b: "text' (activity (message ''shop'')) = Some ''shop''"
    by (simp_all add: message_def)
  have c: "convoState_get (world_with ?st None) (message ''shop'') = Some ?st"
    by (simp add: convoState_get_def world_with_def message_def)
  have d: "\<not> truthy (usingConversationLearner ?st)"
    by (simp add: truthy_def fresh_state_def)
  have e: "\<not> inTrainingUI (echo_engine False) (message ''shop'')"
    and f: "StartSession_failure (echo_engine False) (message ''shop'') = None"
    by (simp_all add: echo_engine_def)
  have g: "outcome (send_failure (message ''shop'') ''Let's shop!'') = Inr ()"
    by (simp add: outcome_def message_def)
  have t: "trace (world_with ?st None) = []"
    "memoryManager (world_with ?st None) =
       \<lparr>curMemories = Map.empty,
        prevMemories = (\<lambda>n. if n = ''purchaseItem'' then None else None)\<rparr>"
    "storeIsOpen ?st = Some True"
    by (simp_all add: world_with_def)
  from shop_starts_session [OF a b c d e] a b c d e f g t show ?thesis
    by (simp add: fresh_state_def RememberEntity_def hook_invocations_simps)
qed

subsection \<open>The session-start callback\<close>

text \<open>
  C4, as stated, fails when \<open>storeIsOpen\<close> is present with the value \<open>false\<close> (the
  value \<open>close store\<close> leaves): the test on line 65 is a truthiness test, so the callback
  does not call \<open>RememberEntity\<close> and the slot \<open>isOpen\<close> stays empty.
\<close>

theorem session_start_flag_false_counterexample:
  "convoState_get (world_with (fresh_state\<lparr>storeIsOpen := Some False\<rparr>) None) (message ''shop'')
     = Some (fresh_state\<lparr>storeIsOpen := Some False\<rparr>) \<and>
   storeIsOpen (fresh_state\<lparr>storeIsOpen := Some False\<rparr>) = Some False \<and>
   curMemories (memoryManager (OnSessionStartCallback (message ''shop'')
       (world_with (fresh_state\<lparr>storeIsOpen := Some False\<rparr>) None))) ''isOpen''
     \<noteq> Some (BoolValue False) \<and>
   curMemories (memoryManager (OnSessionStartCallback (message ''shop'')
       (world_with (fresh_state\<lparr>storeIsOpen := Some False\<rparr>) None))) ''isOpen'' = None"
  by (simp add: fixture_defs model_defs)

text \<open>
  C4, amended. The session-start callback never changes the conversation state store (nor the
  events or the variable \<open>state\<close>). When the state object exists and \<open>storeIsOpen\<close> is
  \<open>true\<close>, it writes \<open>true\<close> to the slot \<open>isOpen\<close> of the engine's memory and
  nothing else; when \<open>storeIsOpen\<close> is \<open>false\<close> or was never assigned, or there is no
  state object, it changes nothing at all.
\<close>

theorem session_start_seeds_isOpen:
  "convoState (OnSessionStartCallback context w) = convoState w \<and>
   state (OnSessionStartCallback context w) = state w \<and>
   trace (OnSessionStartCallback context w) = trace w \<and>
   (convoState_get w context = None \<longrightarrow> OnSessionStartCallback context w = w) \<and>
   (\<forall>st. convoState_get w context = Some st \<longrightarrow>
      (if storeIsOpen st = Some True
       then memoryManager (OnSessionStartCallback context w) =
              (memoryManager w)
                \<lparr>curMemories := (curMemories (memoryManager w))(''isOpen'' \<mapsto> BoolValue True)\<rparr>
       else OnSessionStartCallback context w = w))"
proof (cases "convoState_get w context")
  case None
  then show ?thesis
    by (simp add: OnSessionStartCallback_def)
next
  case (Some st)
  show ?thesis
  proof (cases "storeIsOpen st = Some True")
    case True
    with Some show ?thesis
      by (simp add: OnSessionStartCallback_def truthy_def RememberEntity_def)
  next
    case False
    with Some show ?thesis
      by (simp add: OnSessionStartCallback_def truthy_def)
  qed
qed

theorem session_start_seeds_isOpen_witness:
  "convoState (OnSessionStartCallback (message ''shop'')
       (world_with (fresh_state\<lparr>storeIsOpen := Some True\<rparr>) None))
     = convoState (world_with (fresh_state\<lparr>storeIsOpen := Some True\<rparr>) None) \<and>
   convoState_get (world_with (fresh_state\<lparr>storeIsOpen := Some True\<rparr>) None) (message ''shop'')
     = Some (fresh_state\<lparr>storeIsOpen := Some True\<rparr>) \<and>
   curMemories (memoryManager (OnSessionStartCallback (message ''shop'')
       (world_with (fresh_state\<lparr>storeIsOpen := Some True\<rparr>) None))) ''isOpen''
     = Some (BoolValue True)"
proof -
  let ?st = "fresh_state\<lparr>storeIsOpen := Some True\<rparr>"
  have c: "convoState_get (world_with ?st None) (message ''shop'') = Some ?st"
    by (simp add: convoState_get_def world_with_def message_def)
  have o: "storeIsOpen ?st = Some True"
    by simp
  from session_start_seeds_isOpen [of "message ''shop''" "world_with ?st None"] c o
  show ?thesis by simp
qed

subsection \<open>The purchased item and the command \<open>history\<close>\<close>

text \<open>
  C5, as stated, fails in two ways. With the empty string as the engine's value, the value
  is persisted, but line 187 tests the persisted value for truthiness, so \<open>history\<close>
  answers \<open>You bought nothing\<close> and not the echo of the empty string. And when the
  closing send of line 92 rejects, the callback fails there, before the assignment of line
  99: the engine holds the item \<open>hat\<close> and \<open>purchasedItem\<close> is still unassigned.
\<close>

theorem completed_session_item_counterexample:
  "PrevEntityValue (memoryManager (world_with fresh_state (Some []))) ''purchaseItem''
     = Some [] \<and>
   convoState_get
     (snd (OnSessionEndCallback (message ''bye'') COMPLETED None
             (world_with fresh_state (Some []))))
     (message ''history'')
     = Some (fresh_state\<lparr>usingConversationLearner := Some False,
                          purchasedItem := Some (Some [])\<rparr>) \<and>
   trace (snd (handleTurn (echo_engine False) (message ''history'')
     (snd (OnSessionEndCallback (message ''bye'') COMPLETED None
             (world_with fresh_state (Some []))))))
     = [SendActivity ''Thanks for shopping.'', SendActivity ''You bought nothing''] \<and>
   ''You bought nothing'' \<noteq> ''You bought '' @ [] \<and>
   PrevEntityValue (memoryManager (world_with fresh_state (Some ''hat''))) ''purchaseItem''
     = Some ''hat'' \<and>
   OnSessionEndCallback (undelivered ''bye'') COMPLETED None
     (world_with fresh_state (Some ''hat''))
     = (Inl (Throw ''channel unavailable''),
        (world_with (fresh_state\<lparr>usingConversationLearner := Some False\<rparr>) (Some ''hat''))
          \<lparr>trace := [SendActivity ''Thanks for shopping.'']\<rparr>) \<and>
   purchasedItem (fresh_state\<lparr>usingConversationLearner := Some False\<rparr>) = None"
  by (simp add: fixture_defs model_defs)

text \<open>
  C5, amended. Let the session-end callback run with classification \<open>COMPLETED\<close> on a
  conversation with a state object, the engine's previous memory holding \<open>item\<close> in the
  slot \<open>purchaseItem\<close>. The callback resets \<open>usingConversationLearner\<close>, sends the
  closing message and ends as that send does. When the send resolves,
  \<open>purchasedItem\<close> is \<open>item\<close> afterwards, and a \<open>history\<close> message that follows on
  the same conversation, outside the training UI, answers \<open>You bought\<close> followed by
  \<open>item\<close> when \<open>item\<close> is not empty and by \<open>nothing\<close> when it is empty. When the
  send rejects, \<open>purchasedItem\<close> is what it was. On a state object whose
  \<open>purchasedItem\<close> was never assigned, or is \<open>null\<close>, \<open>history\<close> answers
  \<open>You bought nothing\<close>.
\<close>

theorem completed_session_persists_item:
  assumes "convoState_get w context = Some st"
      and "PrevEntityValue (memoryManager w) ''purchaseItem'' = Some item"
      and "w' = snd (OnSessionEndCallback context COMPLETED data w)"
      and "conversation context' = conversation context"
      and "type (activity context') = ''message''"
      and "text' (activity context') = Some ''history''"
      and "\<not> inTrainingUI cl context'"
      and "convoState_get w0 context' = Some st0"
      and "\<not> truthy (usingConversationLearner st0)"
      and "purchasedItem st0 = None \<or> purchasedItem st0 = Some None"
  shows "trace w' = trace w @ [SendActivity ''Thanks for shopping.''] \<and>
         fst (OnSessionEndCallback context COMPLETED data w) =
           outcome (send_failure context ''Thanks for shopping.'') \<and>
         (send_failure context ''Thanks for shopping.'' = None \<longrightarrow>
            convoState_get w' context =
              Some (st\<lparr>usingConversationLearner := Some False,
                       purchasedItem := Some (Some item)\<rparr>) \<and>
            trace (snd (handleTurn cl context' w')) =
              trace w' @
                [SendActivity (''You bought '' @ (if item = [] then ''nothing'' else item))] \<and>
            fst (handleTurn cl context' w') =
              outcome (send_failure context'
                (''You bought '' @ (if item = [] then ''nothing'' else item)))) \<and>
         (\<forall>e. send_failure context ''Thanks for shopping.'' = Some e \<longrightarrow>
            convoState_get w' context = Some (st\<lparr>usingConversationLearner := Some False\<rparr>)) \<and>
         trace (snd (handleTurn cl context' w0)) =
           trace w0 @ [SendActivity ''You bought nothing''] \<and>
         fst (handleTurn cl context' w0) =
           outcome (send_failure context' ''You bought nothing'')"
proof -
  let ?thanks = "''Thanks for shopping.''"
  let ?answer = "''You bought '' @ (if item = [] then ''nothing'' else item)"
  let ?st' = "st\<lparr>usingConversationLearner := Some False, purchasedItem := Some (Some item)\<rparr>"
  from assms(10) have falsy: "\<not> truthy_string (purchasedItem st0)"
    by (auto simp add: truthy_string_def)
  have never: "handleTurn cl context' w0 =
                 sendActivity context' ''You bought nothing''
                   (w0\<lparr>state := Some (conversation context')\<rparr>)"
    using assms(5,6) falsy
    by (simp add: handleTurn_local [OF assms(8) assms(9) assms(7)] local_dispatch_def)
  have last: "trace (snd (handleTurn cl context' w0)) =
                trace w0 @ [SendActivity ''You bought nothing''] \<and>
              fst (handleTurn cl context' w0) =
                outcome (send_failure context' ''You bought nothing'')"
    by (simp add: never sendActivity_def)
  show ?thesis
  proof (cases "send_failure context ?thanks")
    case None
    from OnSessionEndCallback_completed [OF assms(1) None, of data] assms(2)
    have hook: "OnSessionEndCallback context COMPLETED data w =
                  (Inr (), w\<lparr>convoState := (convoState w)(conversation context \<mapsto> ?st'),
                            trace := trace w @ [SendActivity ?thanks]\<rparr>)"
      by simp
    with assms(3)
    have w': "w' = w\<lparr>convoState := (convoState w)(conversation context \<mapsto> ?st'),
                     trace := trace w @ [SendActivity ?thanks]\<rparr>"
      by simp
    from w' assms(4) have seen: "convoState_get w' context' = Some ?st'"
      by (simp add: convoState_get_def)
    with assms(4) have seen': "convoState_get w' context = Some ?st'"
      by (simp add: convoState_get_def)
    have flag: "\<not> truthy (usingConversationLearner ?st')"
      by (simp add: truthy_def)
    have after: "handleTurn cl context' w' =
                   sendActivity context' ?answer (w'\<lparr>state := Some (conversation context')\<rparr>)"
      using assms(5,6)
      by (simp add: handleTurn_local [OF seen flag assms(7)] local_dispatch_def
          truthy_string_def)
    from w' have sent: "trace w' = trace w @ [SendActivity ?thanks]"
      by simp
    show ?thesis
      by (simp add: None hook seen' sent after last sendActivity_def outcome_def
          del: append.simps)
  next
    case (Some e)
    from OnSessionEndCallback_rejected [OF assms(1) Some, of data]
    have hook: "OnSessionEndCallback context COMPLETED data w =
                  (Inl e,
                   w\<lparr>convoState := (convoState w)(conversation context \<mapsto>
                          st\<lparr>usingConversationLearner := Some False\<rparr>),
                     trace := trace w @ [SendActivity ?thanks]\<rparr>)" .
    with assms(3)
    have w': "w' = w\<lparr>convoState := (convoState w)(conversation context \<mapsto>
                          st\<lparr>usingConversationLearner := Some False\<rparr>),
                     trace := trace w @ [SendActivity ?thanks]\<rparr>"
      by simp
    then have seen: "convoState_get w' context = Some (st\<lparr>usingConversationLearner := Some False\<rparr>)"
      and sent: "trace w' = trace w @ [SendActivity ?thanks]"
      by (simp_all add: convoState_get_def)
    show ?thesis
      by (simp add: Some hook seen sent last outcome_def del: append.simps)
  qed
qed

theorem completed_session_persists_item_witness:
  "convoState_get (world_with (fresh_state\<lparr>usingConversationLearner := Some True\<rparr>) (Some ''hat''))
     (message ''bye'') = Some (fresh_state\<lparr>usingConversationLearner := Some True\<rparr>) \<and>
   PrevEntityValue
     (memoryManager (world_with (fresh_state\<lparr>usingConversationLearner := Some True\<rparr>)
        (Some ''hat'')))
     ''purchaseItem'' = Some ''hat'' \<and>
   conversation (message ''history'') = conversation (message ''bye'') \<and>
   type (activity (message ''history'')) = ''message'' \<and>
   text' (activity (message ''history'')) = Some ''history'' \<and>
   \<not> inTrainingUI (echo_engine False) (message ''history'') \<and>
   convoState_get (world_with fresh_state None) (message ''history'') = Some fresh_state \<and>
   \<not> truthy (usingConversationLearner fresh_state) \<and>
   purchasedItem fresh_state = None \<and>
   send_failure (message ''bye'') ''Thanks for shopping.'' = None \<and>
   trace (snd (handleTurn (echo_engine False) (message ''history'')
     (snd (OnSessionEndCallback (message ''bye'') COMPLETED None
        (world_with (fresh_state\<lparr>usingConversationLearner := Some True\<rparr>) (Some ''hat''))))))
     = [SendActivity ''Thanks for shopping.'', SendActivity ''You bought hat''] \<and>
   trace (snd (handleTurn (echo_engine False) (message ''history'') (world_with fresh_state None)))
     = [SendActivity ''You bought nothing'']"
proof -
  let ?st = "fresh_state\<lparr>usingConversationLearner := Some True\<rparr>"
  let ?w = "world_with ?st (Some ''hat'')"
  have a: "convoState_get ?w (message ''bye'') = Some ?st"
    by (simp add: convoState_get_def world_with_def message_def)
  have b: "PrevEntityValue (memoryManager ?w) ''purchaseItem'' = Some ''hat''"
    by (simp add: PrevEntityValue_def world_with_def)
  have c: "conversation (message ''history'') = conversation (message ''bye'')"
    and d: "type (activity (message ''history'')) = ''message''"
    and e: "text' (activity (message ''history'')) = Some ''history''"
    and s: "send_failure (message ''bye'') ''Thanks for shopping.'' = None"
    by (simp_all add: message_def)
  have f: "\<not> inTrainingUI (echo_engine False) (message ''history'')"
    by (simp add: echo_engine_def)
  have g: "convoState_get (world_with fresh_state None) (message ''history'') = Some fresh_state"
    by (simp add: convoState_get_def world_with_def message_def)
  have h: "\<not> truthy (usingConversationLearner fresh_state)"
    and i: "purchasedItem fresh_state = None"
    by (simp_all add: truthy_def fresh_state_def)
  have t: "trace ?w = []" "trace (world_with fresh_state None) = []"
    by (simp_all add: world_with_def)
  from i have j: "purchasedItem fresh_state = None \<or> purchasedItem fresh_state = Some None" ..
  from completed_session_persists_item [OF a b refl c d e f g h j, of None] a b c d e f g h i s t
  show ?thesis by simp
qed

subsection \<open>The local commands\<close>

text \<open>
  C6. A message turn whose text is none of the four commands (or which has no text), on a
  conversation whose \<open>usingConversationLearner\<close> is not true and which does not come from
  the training UI, sends exactly one message, the list of commands, and leaves every state
  object and the engine's memory as they were. The handler ends as that send does.
\<close>

theorem other_text_sends_help:
  assumes "type (activity context) = ''message''"
      and "text' (activity context) \<noteq> Some ''open store''"
      and "text' (activity context) \<noteq> Some ''close store''"
      and "text' (activity context) \<noteq> Some ''shop''"
      and "text' (activity context) \<noteq> Some ''history''"
      and "convoState_get w context = Some st"
      and "\<not> truthy (usingConversationLearner st)"
      and "\<not> inTrainingUI cl context"
  shows "trace (snd (handleTurn cl context w)) =
           trace w @
             [SendActivity ''You can: \"open store\", \"close store\", \"shop\", \"history\"''] \<and>
         convoState (snd (handleTurn cl context w)) = convoState w \<and>
         memoryManager (snd (handleTurn cl context w)) = memoryManager w \<and>
         fst (handleTurn cl context w) =
           outcome (send_failure context
             ''You can: \"open store\", \"close store\", \"shop\", \"history\"'')"
proof -
  from assms(1-5)
  have "local_dispatch cl context (conversation context) st
          (w\<lparr>state := Some (conversation context)\<rparr>)
          = sendActivity context help_message (w\<lparr>state := Some (conversation context)\<rparr>)"
    by (simp add: local_dispatch_def)
  with handleTurn_local [OF assms(6-8)]
  have "handleTurn cl context w =
          sendActivity context help_message (w\<lparr>state := Some (conversation context)\<rparr>)"
    by simp
  then show ?thesis
    by (simp add: sendActivity_frame help_message_def)
qed

theorem other_text_sends_help_witness:
  "type (activity (message ''Shop'')) = ''message'' \<and>
   text' (activity (message ''Shop'')) \<noteq> Some ''shop'' \<and>
   convoState_get (world_with fresh_state None) (message ''Shop'') = Some fresh_state \<and>
   \<not> truthy (usingConversationLearner fresh_state) \<and>
   \<not> inTrainingUI (echo_engine False) (message ''Shop'') \<and>
   trace (snd (handleTurn (echo_engine False) (message ''Shop'') (world_with fresh_state None))) =
     [SendActivity ''You can: \"open store\", \"close store\", \"shop\", \"history\"''] \<and>
   convoState (snd (handleTurn (echo_engine False) (message ''Shop'') (world_with fresh_state None)))
     = convoState (world_with fresh_state None) \<and>
   fst (handleTurn (echo_engine False) (message ''Shop'') (world_with fresh_state None)) = Inr ()"
proof -
  have a: "type (activity (message ''Shop'')) = ''message''"
    and b1: "text' (activity (message ''Shop'')) \<noteq> Some ''open store''"
    and b2: "text' (activity (message ''Shop'')) \<noteq> Some ''close store''"
    and b3: "text' (activity (message ''Shop'')) \<noteq> Some ''shop''"
    and b4: "text' (activity (message ''Shop'')) \<noteq> Some ''history''"
    by (simp_all add: message_def)
  have c: "convoState_get (world_with fresh_state None) (message ''Shop'') = Some fresh_state"
    by (simp add: convoState_get_def world_with_def message_def)
  have d: "\<not> truthy (usingConversationLearner fresh_state)"
    by (simp add: truthy_def fresh_state_def)
  have e: "\<not> inTrainingUI (echo_engine False) (message ''Shop'')"
    by (simp add: echo_engine_def)
  have t: "trace (world_with fresh_state None) = []"
    by (simp add: world_with_def)
  have s: "outcome (send_failure (message ''Shop'')
             ''You can: \"open store\", \"close store\", \"shop\", \"history\"'') = Inr ()"
    by (simp add: outcome_def message_def)
  from other_text_sends_help [OF a b1 b2 b3 b4 c d e] a b3 c d e t s show ?thesis by simp
qed

text \<open>
  C7. On a message turn that reaches the local commands (state object present,
  \<open>usingConversationLearner\<close> not true, not from the training UI), \<open>open store\<close>
  sets \<open>storeIsOpen\<close> to \<open>true\<close> and sends \<open>Store is OPEN!\<close>, and
  \<open>close store\<close> sets it to \<open>false\<close> and sends \<open>Store is CLOSED!\<close>. In both cases
  the state object is the old one with only \<open>storeIsOpen\<close> replaced, so
  \<open>usingConversationLearner\<close> is what it was, and the handler ends as the send does.
\<close>

theorem store_commands_set_flag:
  assumes "type (activity context) = ''message''"
      and "convoState_get w context = Some st"
      and "\<not> truthy (usingConversationLearner st)"
      and "\<not> inTrainingUI cl context"
  shows "(text' (activity context) = Some ''open store'' \<longrightarrow>
            convoState_get (snd (handleTurn cl context w)) context =
              Some (st\<lparr>storeIsOpen := Some True\<rparr>) \<and>
            trace (snd (handleTurn cl context w)) = trace w @ [SendActivity ''Store is OPEN!''] \<and>
            fst (handleTurn cl context w) = outcome (send_failure context ''Store is OPEN!'')) \<and>
         (text' (activity context) = Some ''close store'' \<longrightarrow>
            convoState_get (snd (handleTurn cl context w)) context =
              Some (st\<lparr>storeIsOpen := Some False\<rparr>) \<and>
            trace (snd (handleTurn cl context w)) = trace w @ [SendActivity ''Store is CLOSED!''] \<and>
            fst (handleTurn cl context w) = outcome (send_failure context ''Store is CLOSED!''))"
proof -
  let ?c = "conversation context"
  let ?w1 = "w\<lparr>state := Some ?c\<rparr>"
  from assms(2) have present: "convoState ?w1 ?c = Some st"
    by (simp add: convoState_get_def)
  note turn = handleTurn_local [OF assms(2-4)]
  have opened: ?thesis if "text' (activity context) = Some ''open store''"
    using that assms(1) turn
    by (simp add: local_dispatch_def assign_present [OF present] sendActivity_def
        convoState_get_def)
  have closed: ?thesis if "text' (activity context) = Some ''close store''"
    using that assms(1) turn
    by (simp add: local_dispatch_def assign_present [OF present] sendActivity_def
        convoState_get_def)
  from opened closed show ?thesis
    by blast
qed

theorem store_commands_set_flag_witness:
  "type (activity (undelivered ''close store'')) = ''message'' \<and>
   convoState_get (world_with (fresh_state\<lparr>storeIsOpen := Some True\<rparr>) None)
     (undelivered ''close store'') = Some (fresh_state\<lparr>storeIsOpen := Some True\<rparr>) \<and>
   \<not> truthy (usingConversationLearner (fresh_state\<lparr>storeIsOpen := Some True\<rparr>)) \<and>
   \<not> inTrainingUI (echo_engine False) (undelivered ''close store'') \<and>
   text' (activity (undelivered ''close store'')) = Some ''close store'' \<and>
   convoState_get
     (snd (handleTurn (echo_engine False) (undelivered ''close store'')
             (world_with (fresh_state\<lparr>storeIsOpen := Some True\<rparr>) None)))
     (undelivered ''close store'')
     = Some \<lparr>usingConversationLearner = None, storeIsOpen = Some False, purchasedItem = None\<rparr> \<and>
   trace (snd (handleTurn (echo_engine False) (undelivered ''close store'')
             (world_with (fresh_state\<lparr>storeIsOpen := Some True\<rparr>) None)))
     = [SendActivity ''Store is CLOSED!''] \<and>
   fst (handleTurn (echo_engine False) (undelivered ''close store'')
          (world_with (fresh_state\<lparr>storeIsOpen := Some True\<rparr>) None))
     = Inl (Throw ''channel unavailable'')"
proof -
  let ?st = "fresh_state\<lparr>storeIsOpen := Some True\<rparr>"
  have a: "type (activity (undelivered ''close store'')) = ''message''"
    and b: "text' (activity (undelivered ''close store'')) = Some ''close store''"
    by (simp_all add: undelivered_def message_def)
  have c: "convoState_get (world_with ?st None) (undelivered ''close store'') = Some ?st"
    by (simp add: convoState_get_def world_with_def undelivered_def message_def)
  have d: "\<not> truthy (usingConversationLearner ?st)"
    by (simp add: truthy_def fresh_state_def)
  have e: "\<not> inTrainingUI (echo_engine False) (undelivered ''close store'')"
    by (simp add: echo_engine_def)
  have t: "trace (world_with ?st None) = []"
    by (simp add: world_with_def)
  have s: "outcome (send_failure (undelivered ''close store'') ''Store is CLOSED!'')
           = Inl (Throw ''channel unavailable'')"
    by (simp add: outcome_def undelivered_def)
  from store_commands_set_flag [OF a c d e] a b c d e t s show ?thesis
    by (simp add: fresh_state_def)
qed

subsection \<open>Missing state objects\<close>

text \<open>
  C8. When the conversation of a turn has no state object, the handler throws
  \<open>Error Getting State\<close>; apart from the variable \<open>state\<close>, which now holds
  \<open>undefined\<close>, the world is as before: no state object, no slot of the engine's memory
  and no event has changed, so nothing was sent. The result does not depend on the engine,
  which is never asked whether the turn comes from the training UI and never called.
\<close>

theorem missing_state_aborts_turn:
  assumes "convoState_get w context = None"
  shows "handleTurn cl context w = (Inl (Throw ''Error Getting State''), w\<lparr>state := None\<rparr>) \<and>
         convoState (snd (handleTurn cl context w)) = convoState w \<and>
         memoryManager (snd (handleTurn cl context w)) = memoryManager w \<and>
         trace (snd (handleTurn cl context w)) = trace w"
  using assms by (simp add: handleTurn_def)

theorem missing_state_aborts_turn_witness:
  "convoState_get world_without_state (message ''shop'') = None \<and>
   handleTurn (echo_engine True) (message ''shop'') world_without_state
     = (Inl (Throw ''Error Getting State''), world_without_state) \<and>
   trace (snd (handleTurn (echo_engine True) (message ''shop'') world_without_state)) = []"
proof -
  have a: "convoState_get world_without_state (message ''shop'') = None"
    by (simp add: convoState_get_def world_without_state_def)
  have b: "world_without_state\<lparr>state := None\<rparr> = world_without_state"
    and c: "trace world_without_state = []"
    by (simp_all add: world_without_state_def)
  from missing_state_aborts_turn [OF a, of "echo_engine True"] a b c show ?thesis by simp
qed

text \<open>
  C9. When the session-end callback runs on a conversation that has no state object, it
  throws \<open>Bot State not Initialized!\<close> and the world is exactly as before: nothing was
  written to the state store or the engine's memory and nothing was sent.
\<close>

theorem session_end_without_state_throws:
  assumes "convoState_get w context = None"
  shows "OnSessionEndCallback context sessionEndState data w =
           (Inl (Throw ''Bot State not Initialized!''), w)"
  using assms by (simp add: OnSessionEndCallback_def)

theorem session_end_without_state_throws_witness:
  "convoState_get world_without_state (message ''bye'') = None \<and>
   OnSessionEndCallback (message ''bye'') COMPLETED (Some ''done'') world_without_state =
     (Inl (Throw ''Bot State not Initialized!''), world_without_state)"
proof -
  have a: "convoState_get world_without_state (message ''bye'') = None"
    by (simp add: convoState_get_def world_without_state_def)
  from session_end_without_state_throws [OF a, of COMPLETED "Some ''done''"] a
  show ?thesis by simp
qed

subsection \<open>The payload of the session-end callback\<close>

text \<open>
  C10. The session-end callback does the same whatever its payload \<open>data\<close> is: the
  outcome and the whole world afterwards are equal for any two payloads. On a completed
  session \<open>purchasedItem\<close> ends as what the engine's previous memory holds in the slot
  \<open>purchaseItem\<close>, or, when the closing send rejects, as what it was before; it never
  comes from \<open>data\<close>.
\<close>

theorem session_end_ignores_data:
  "OnSessionEndCallback context sessionEndState data w =
     OnSessionEndCallback context sessionEndState data' w \<and>
   (\<forall>st. convoState_get w context = Some st \<longrightarrow>
      convoState_get (snd (OnSessionEndCallback context COMPLETED data w)) context =
        Some (st\<lparr>usingConversationLearner := Some False,
                 purchasedItem :=
                   (if send_failure context ''Thanks for shopping.'' = None
                    then Some (prevMemories (memoryManager w) ''purchaseItem'')
                    else purchasedItem st)\<rparr>))"
proof (intro conjI allI impI)
  show "OnSessionEndCallback context sessionEndState data w =
          OnSessionEndCallback context sessionEndState data' w"
    by (simp add: OnSessionEndCallback_def)
next
  fix st
  assume present: "convoState_get w context = Some st"
  show "convoState_get (snd (OnSessionEndCallback context COMPLETED data w)) context =
          Some (st\<lparr>usingConversationLearner := Some False,
                   purchasedItem :=
                     (if send_failure context ''Thanks for shopping.'' = None
                      then Some (prevMemories (memoryManager w) ''purchaseItem'')
                      else purchasedItem st)\<rparr>)"
  proof (cases "send_failure context ''Thanks for shopping.''")
    case None
    with OnSessionEndCallback_completed [OF present None, of data] show ?thesis
      by (simp add: convoState_get_def PrevEntityValue_def)
  next
    case (Some e)
    with OnSessionEndCallback_rejected [OF present Some, of data] show ?thesis
      by (simp add: convoState_get_def)
  qed
qed

theorem session_end_ignores_data_witness:
  "OnSessionEndCallback (message ''bye'') COMPLETED (Some ''shoes'')
     (world_with fresh_state (Some ''hat'')) =
   OnSessionEndCallback (message ''bye'') COMPLETED None (world_with fresh_state (Some ''hat'')) \<and>
   convoState_get (world_with fresh_state (Some ''hat'')) (message ''bye'') = Some fresh_state \<and>
   convoState_get
     (snd (OnSessionEndCallback (message ''bye'') COMPLETED (Some ''shoes'')
             (world_with fresh_state (Some ''hat''))))
     (message ''bye'')
     = Some \<lparr>usingConversationLearner = Some False, storeIsOpen = None,
             purchasedItem = Some (Some ''hat'')\<rparr>"
proof -
  have a: "convoState_get (world_with fresh_state (Some ''hat'')) (message ''bye'') = Some fresh_state"
    by (simp add: convoState_get_def world_with_def message_def)
  have b: "prevMemories (memoryManager (world_with fresh_state (Some ''hat''))) ''purchaseItem''
             = Some ''hat''"
    by (simp add: world_with_def)
  have s: "send_failure (message ''bye'') ''Thanks for shopping.'' = None"
    by (simp add: message_def)
  note th = session_end_ignores_data
    [of "message ''bye''" COMPLETED "Some ''shoes''" "world_with fresh_state (Some ''hat'')" None]
  from th have c: "OnSessionEndCallback (message ''bye'') COMPLETED (Some ''shoes'')
                     (world_with fresh_state (Some ''hat'')) =
                   OnSessionEndCallback (message ''bye'') COMPLETED None
                     (world_with fresh_state (Some ''hat''))"
    by (rule conjunct1)
  from th a have "convoState_get
       (snd (OnSessionEndCallback (message ''bye'') COMPLETED (Some ''shoes'')
               (world_with fresh_state (Some ''hat''))))
       (message ''bye'')
     = Some (fresh_state\<lparr>usingConversationLearner := Some False,
               purchasedItem :=
                 (if send_failure (message ''bye'') ''Thanks for shopping.'' = None
                  then Some (prevMemories (memoryManager (world_with fresh_state (Some ''hat'')))
                               ''purchaseItem'')
                  else purchasedItem fresh_state)\<rparr>)"
    by blast
  with b s have d: "convoState_get
       (snd (OnSessionEndCallback (message ''bye'') COMPLETED (Some ''shoes'')
               (world_with fresh_state (Some ''hat''))))
       (message ''bye'')
     = Some \<lparr>usingConversationLearner = Some False, storeIsOpen = None,
             purchasedItem = Some (Some ''hat'')\<rparr>"
    by (simp add: fresh_state_def)
  from c a d show ?thesis by blast
qed

end
